theory Spec2Isabelle
  imports Main
begin

section \<open>The SMTP test script: values, results, effects\<close>

text \<open>
  The script \<^verbatim>\<open>scripts/smtp-test.py\<close> holds one class, \<^verbatim>\<open>SMTPTester\<close>: eight probe methods,
  \<^verbatim>\<open>log_result\<close> which records what a probe found, and \<^verbatim>\<open>run_all_tests\<close> which calls the
  probes in order, prints a summary and writes the report. This theory embeds the class
  with explicit state passing. What the script does to the outside (console lines,
  sleeping, the report file) is kept as an ordered list of events; what the outside
  answers (the clock, the network, the file system) is read from an environment.
\<close>

subsection \<open>Python values\<close>

text \<open>
  An exception object, as far as the script looks at it: the name of its class, what
  \<^verbatim>\<open>str(e)\<close> gives, whether it is an instance of \<^verbatim>\<open>Exception\<close> (what
  \<^verbatim>\<open>except Exception\<close> catches; \<^verbatim>\<open>KeyboardInterrupt\<close> and \<^verbatim>\<open>SystemExit\<close> are not), and its
  truth value (\<^verbatim>\<open>True\<close> for every built-in exception; a class may define
  \<^verbatim>\<open>__bool__\<close> or \<^verbatim>\<open>__len__\<close>).
\<close>

datatype pyexc = PyExc (exc_type: string) (exc_str: string) (exc_isException: bool) (exc_truthy: bool)

definition ZeroDivisionError :: pyexc where
  "ZeroDivisionError = PyExc ''ZeroDivisionError'' ''division by zero'' True True"

text \<open>
  The values the script passes as \<^verbatim>\<open>error\<close> to \<^verbatim>\<open>log_result\<close>: \<^verbatim>\<open>None\<close> (the default), a
  string literal, or a caught exception.
\<close>

datatype pyval = PyNone | PyStr string | PyErr pyexc

text \<open>Python's truth value of such a value, and \<^verbatim>\<open>str\<close> of it.\<close>

fun truthy :: "pyval \<Rightarrow> bool" where
  "truthy PyNone = False"
| "truthy (PyStr s) = (s \<noteq> [])"
| "truthy (PyErr e) = exc_truthy e"

fun str :: "pyval \<Rightarrow> string" where
  "str PyNone = ''None''"
| "str (PyStr s) = s"
| "str (PyErr e) = exc_str e"

text \<open>\<^verbatim>\<open>str\<close> of a Python integer: decimal digits, with a minus sign below zero.\<close>

fun digits :: "nat \<Rightarrow> string" where
  "digits n = (if n < 10 then [''0123456789'' ! n] else digits (n div 10) @ [''0123456789'' ! (n mod 10)])"

declare digits.simps [simp del]

definition str_int :: "int \<Rightarrow> string" where
  "str_int i = (if i < 0 then CHR ''-'' # digits (nat (- i)) else digits (nat i))"

subsection \<open>Results and the tester object\<close>

text \<open>
  One entry of \<^verbatim>\<open>self.results\<close>: the dictionary \<^verbatim>\<open>log_result\<close> builds, with its five keys.
  \<^verbatim>\<open>details\<close> is \<^verbatim>\<open>None\<close> or a string at every call of the script.
\<close>

record result =
  test :: string
  success :: bool
  timestamp :: string
  details :: "string option"
  error :: "string option"

text \<open>The object \<^verbatim>\<open>__init__\<close> builds: three options and the result log.\<close>

record tester =
  smtp_host :: string
  mx_port :: int
  submission_port :: int
  results :: "result list"

definition SMTPTester :: "string \<Rightarrow> int \<Rightarrow> int \<Rightarrow> tester" where
  "SMTPTester host mx sub = \<lparr>smtp_host = host, mx_port = mx, submission_port = sub, results = []\<rparr>"

text \<open>\<^verbatim>\<open>SMTPTester()\<close>: every parameter at its default.\<close>

definition SMTPTester_default :: tester where
  "SMTPTester_default = SMTPTester ''app'' 25 587"

subsection \<open>The outside world\<close>

text \<open>The document \<^verbatim>\<open>json.dump\<close> writes, as a tree.\<close>

datatype json = JNull | JBool bool | JString string | JArray "json list" | JObject "(string \<times> json) list"

text \<open>
  What the process does to the outside, in order: a probe method is called, a line is
  printed, the process sleeps, a file is written.
\<close>

datatype event = Invoke string | Print string | Sleep int | Write string json

record world =
  ticks :: nat
  trace :: "event list"

type_synonym state = "tester \<times> world"

definition world0 :: world where
  "world0 = \<lparr>ticks = 0, trace = []\<rparr>"

definition emit :: "event \<Rightarrow> state \<Rightarrow> state" where
  "emit ev st = (fst st, (snd st)\<lparr>trace := trace (snd st) @ [ev]\<rparr>)"

text \<open>
  What a probe method does in one run, as the rest of the class sees it: its calls of
  \<^verbatim>\<open>self.log_result\<close> in order, and then how it ends, by returning or by raising.
\<close>

datatype call = LogResult string bool "string option" pyval

datatype ending = Return | Raise pyexc

type_synonym behaviour = "call list \<times> ending"

text \<open>
  What the outside answers. \<^verbatim>\<open>clock k\<close> is what the \<open>k\<close>-th
  \<^verbatim>\<open>datetime.now().isoformat()\<close> of \<^verbatim>\<open>log_result\<close> returns. \<^verbatim>\<open>create_connection i host port\<close>
  is \<^verbatim>\<open>None\<close> when the \<open>i\<close>-th \<^verbatim>\<open>socket.create_connection\<close> of the run (and the
  \<^verbatim>\<open>close\<close> after it) goes through, and the exception raised otherwise. The seven probes
  after \<^verbatim>\<open>test_port_connectivity\<close> are conversations with \<^verbatim>\<open>smtplib\<close>, which is not part
  of the repository: \<^verbatim>\<open>smtp_probe name\<close> is what the method \<^verbatim>\<open>name\<close> does in this run.
  \<^verbatim>\<open>open_w path\<close> is the exception raised by \<^verbatim>\<open>open(path, 'w')\<close>, if any.
  \<^verbatim>\<open>format_rate passed total\<close> is the text of \<^verbatim>\<open>(passed/total)*100\<close> under the format
  \<^verbatim>\<open>.1f\<close>, asked for only when \<^verbatim>\<open>total\<close> is not zero: floating point is not modelled.
\<close>

record env =
  clock :: "nat \<Rightarrow> string"
  create_connection :: "nat \<Rightarrow> string \<Rightarrow> int \<Rightarrow> pyexc option"
  smtp_probe :: "string \<Rightarrow> behaviour"
  open_w :: "string \<Rightarrow> pyexc option"
  format_rate :: "int \<Rightarrow> int \<Rightarrow> string"

section \<open>The methods\<close>

subsection \<open>\<^verbatim>\<open>log_result\<close>\<close>

text \<open>The marks the script prints, as UTF-8 bytes: a check mark and a cross.\<close>

definition check :: string where
  "check = [CHR 0xE2, CHR 0x9C, CHR 0x85]"

definition cross :: string where
  "cross = [CHR 0xE2, CHR 0x9D, CHR 0x8C]"

text \<open>The value stored under the key \<^verbatim>\<open>'error'\<close>: \<^verbatim>\<open>str(error) if error else None\<close>.\<close>

definition error_field :: "pyval \<Rightarrow> string option" where
  "error_field err = (if truthy err then Some (str err) else None)"

definition log_result :: "env \<Rightarrow> string \<Rightarrow> bool \<Rightarrow> string option \<Rightarrow> pyval \<Rightarrow> state \<Rightarrow> state" where
  "log_result ev test_name succ dets err st =
     (let self = fst st; w = snd st;
          res = \<lparr>test = test_name, success = succ, timestamp = clock ev (ticks w),
                 details = dets, error = error_field err\<rparr>;
          status = (if succ then check @ '' PASS'' else cross @ '' FAIL'')
      in (self\<lparr>results := results self @ [res]\<rparr>,
          w\<lparr>ticks := Suc (ticks w),
            trace := trace w @ [Print (status @ '' '' @ test_name)]
              @ (if truthy err then [Print (''   Error: '' @ str err)] else [])
              @ (case dets of None \<Rightarrow> []
                 | Some d \<Rightarrow> if d \<noteq> [] then [Print (''   Details: '' @ d)] else [])\<rparr>))"

subsection \<open>\<^verbatim>\<open>test_port_connectivity\<close>\<close>

text \<open>
  The loop over the two ports. Each round tries to connect: when that goes through it
  logs a pass; when it raises an instance of \<^verbatim>\<open>Exception\<close> it logs a failure with
  the exception as error; any other exception leaves the method. The name logged is
  \<^verbatim>\<open>f'{port_name} Port {port} Connectivity'\<close>.
\<close>

definition connectivity :: "string \<Rightarrow> int \<Rightarrow> string" where
  "connectivity port_name port = port_name @ '' Port '' @ str_int port @ '' Connectivity''"

fun port_loop :: "env \<Rightarrow> string \<Rightarrow> nat \<Rightarrow> (string \<times> int) list \<Rightarrow> behaviour" where
  "port_loop ev host i [] = ([], Return)"
| "port_loop ev host i ((port_name, port) # rest) =
     (case create_connection ev i host port of
        None \<Rightarrow>
          (LogResult (connectivity port_name port) True None PyNone # fst (port_loop ev host (Suc i) rest),
           snd (port_loop ev host (Suc i) rest))
      | Some e \<Rightarrow>
          if exc_isException e
          then (LogResult (connectivity port_name port) False None (PyErr e)
                  # fst (port_loop ev host (Suc i) rest),
                snd (port_loop ev host (Suc i) rest))
          else ([], Raise e))"

definition test_port_connectivity :: "env \<Rightarrow> tester \<Rightarrow> behaviour" where
  "test_port_connectivity ev self =
     port_loop ev (smtp_host self) 0 [(''MX'', mx_port self), (''Submission'', submission_port self)]"

subsection \<open>\<^verbatim>\<open>run_all_tests\<close>\<close>

text \<open>Calling a probe method: its \<^verbatim>\<open>log_result\<close> calls take effect in order, then it ends.\<close>

fun do_calls :: "env \<Rightarrow> call list \<Rightarrow> state \<Rightarrow> state" where
  "do_calls ev [] st = st"
| "do_calls ev (LogResult n s d e # cs) st = do_calls ev cs (log_result ev n s d e st)"

definition invoke :: "env \<Rightarrow> string \<times> behaviour \<Rightarrow> state \<Rightarrow> ending \<times> state" where
  "invoke ev p st = (snd (snd p), do_calls ev (fst (snd p)) (emit (Invoke (fst p)) st))"

text \<open>
  The list \<^verbatim>\<open>tests\<close>: the eight bound methods, each with its \<^verbatim>\<open>__name__\<close>.
\<close>

definition tests :: "env \<Rightarrow> tester \<Rightarrow> (string \<times> behaviour) list" where
  "tests ev self =
     [(''test_port_connectivity'', test_port_connectivity ev self),
      (''test_smtp_banner'', smtp_probe ev ''test_smtp_banner''),
      (''test_ehlo_features'', smtp_probe ev ''test_ehlo_features''),
      (''test_submission_auth_required'', smtp_probe ev ''test_submission_auth_required''),
      (''test_mx_external_email'', smtp_probe ev ''test_mx_external_email''),
      (''test_relay_protection'', smtp_probe ev ''test_relay_protection''),
      (''test_send_test_email'', smtp_probe ev ''test_send_test_email''),
      (''test_connection_limits'', smtp_probe ev ''test_connection_limits'')]"

text \<open>
  The loop \<^verbatim>\<open>for test in tests\<close>. An exception that is an instance of \<^verbatim>\<open>Exception\<close> is
  logged under the method's name and the loop sleeps and goes on; any other exception
  leaves the loop (and the method) at once.
\<close>

fun run_loop :: "env \<Rightarrow> (string \<times> behaviour) list \<Rightarrow> state \<Rightarrow> pyexc option \<times> state" where
  "run_loop ev [] st = (None, st)"
| "run_loop ev (p # ps) st =
     (case fst (invoke ev p st) of
        Return \<Rightarrow> run_loop ev ps (emit (Sleep 1) (snd (invoke ev p st)))
      | Raise e \<Rightarrow>
          if exc_isException e
          then run_loop ev ps
                 (emit (Sleep 1) (log_result ev (fst p) False None (PyErr e) (snd (invoke ev p st))))
          else (Some e, snd (invoke ev p st)))"

text \<open>
  The counts of the summary, as the method computes them: \<^verbatim>\<open>passed\<close>, \<^verbatim>\<open>total\<close>
  (here \<open>total_count\<close>) and, where it is printed, \<^verbatim>\<open>total - passed\<close>.
\<close>

definition passed :: "result list \<Rightarrow> int" where
  "passed rs = sum_list (map (\<lambda>r. 1) (filter success rs))"

definition total_count :: "result list \<Rightarrow> int" where
  "total_count rs = int (length rs)"

definition failed :: "result list \<Rightarrow> int" where
  "failed rs = total_count rs - passed rs"

text \<open>\<^verbatim>\<open>json.dump(self.results, f)\<close>: an array with one object per result.\<close>

definition result_json :: "result \<Rightarrow> json" where
  "result_json r =
     JObject [(''test'', JString (test r)),
              (''success'', JBool (success r)),
              (''timestamp'', JString (timestamp r)),
              (''details'', case details r of None \<Rightarrow> JNull | Some d \<Rightarrow> JString d),
              (''error'', case error r of None \<Rightarrow> JNull | Some e \<Rightarrow> JString e)]"

definition json_dump :: "result list \<Rightarrow> json" where
  "json_dump rs = JArray (map result_json rs)"

definition report_path :: string where
  "report_path = ''/tmp/smtp-test-results.json''"

definition line50 :: string where
  "line50 = replicate 50 CHR ''=''"

definition chart :: string where
  "chart = [CHR 0xF0, CHR 0x9F, CHR 0x93, CHR 0x8A]"

definition flask :: string where
  "flask = [CHR 0xF0, CHR 0x9F, CHR 0xA7, CHR 0xAA]"

definition page :: string where
  "page = [CHR 0xF0, CHR 0x9F, CHR 0x93, CHR 0x84]"

text \<open>The two lines printed before the first probe.\<close>

definition announce :: "state \<Rightarrow> state" where
  "announce st = emit (Print line50) (emit (Print (flask @ '' Starting UltraZend SMTP Tests...'')) st)"

text \<open>
  The body of \<^verbatim>\<open>run_all_tests\<close> for a given list \<^verbatim>\<open>tests\<close>. The result is \<^verbatim>\<open>Inr\<close> of the
  returned boolean, or \<^verbatim>\<open>Inl\<close> of the exception that leaves the method: one a probe
  raised that \<^verbatim>\<open>except Exception\<close> does not catch, the \<^verbatim>\<open>ZeroDivisionError\<close> of
  \<^verbatim>\<open>passed/total\<close>, or what \<^verbatim>\<open>open\<close> raised.
\<close>

definition runner :: "env \<Rightarrow> (string \<times> behaviour) list \<Rightarrow> state \<Rightarrow> (pyexc + bool) \<times> state" where
  "runner ev ts st =
     (case fst (run_loop ev ts (announce st)) of
        Some e \<Rightarrow> (Inl e, snd (run_loop ev ts (announce st)))
      | None \<Rightarrow>
         (let st1 = snd (run_loop ev ts (announce st));
              st2 = emit (Print (chart @ '' Test Summary:'')) (emit (Print (CHR 0x0A # line50)) st1);
              p = passed (results (fst st2));
              t = total_count (results (fst st2));
              st3 = emit (Print (cross @ '' Failed: '' @ str_int (t - p) @ ''/'' @ str_int t))
                      (emit (Print (check @ '' Passed: '' @ str_int p @ ''/'' @ str_int t)) st2)
          in if t = 0 then (Inl ZeroDivisionError, st3)
             else
               (let st4 = emit (Print (chart @ '' Success Rate: '' @ format_rate ev p t @ ''%'')) st3
                in case open_w ev report_path of
                     Some e \<Rightarrow> (Inl e, st4)
                   | None \<Rightarrow>
                       (Inr (p = t),
                        emit (Print (CHR 0x0A # page @ '' Detailed results saved to: /tmp/smtp-test-results.json''))
                          (emit (Write report_path (json_dump (results (fst st4)))) st4)))))"

definition run_all_tests :: "env \<Rightarrow> state \<Rightarrow> (pyexc + bool) \<times> state" where
  "run_all_tests ev st = runner ev (tests ev (fst st)) st"

subsection \<open>The script\<close>

text \<open>
  \<^verbatim>\<open>__main__\<close>: a fresh tester with the default options runs all tests; the script
  calls \<^verbatim>\<open>exit(0)\<close> or \<^verbatim>\<open>exit(1)\<close> (\<^verbatim>\<open>Inr\<close> of the code), unless an exception left
  \<^verbatim>\<open>run_all_tests\<close>, which then ends the process uncaught (\<^verbatim>\<open>Inl\<close>).
\<close>

definition party :: string where
  "party = [CHR 0xF0, CHR 0x9F, CHR 0x8E, CHR 0x89]"

definition warning :: string where
  "warning = [CHR 0xE2, CHR 0x9A, CHR 0xA0, CHR 0xEF, CHR 0xB8, CHR 0x8F]"

definition script :: "env \<Rightarrow> (pyexc + int) \<times> state" where
  "script ev =
     (case fst (run_all_tests ev (SMTPTester_default, world0)) of
        Inl e \<Rightarrow> (Inl e, snd (run_all_tests ev (SMTPTester_default, world0)))
      | Inr ok \<Rightarrow>
          if ok
          then (Inr 0, emit (Print (CHR 0x0A # party @ '' All tests passed! SMTP server is working correctly.''))
                         (snd (run_all_tests ev (SMTPTester_default, world0))))
          else (Inr 1, emit (Print (CHR 0x0A # warning @ ''  Some tests failed. Check the logs for details.''))
                         (snd (run_all_tests ev (SMTPTester_default, world0)))))"

section \<open>Reading a run\<close>

text \<open>
  The functions of this section are not part of the script: they read a log or a list of
  events, so that the statements below can speak about them.
\<close>

text \<open>A result without its timestamp.\<close>

definition outcome :: "result \<Rightarrow> string \<times> bool \<times> string option \<times> string option" where
  "outcome r = (test r, success r, details r, error r)"

text \<open>What a call of \<^verbatim>\<open>log_result\<close> records, timestamp apart.\<close>

fun logged :: "call \<Rightarrow> string \<times> bool \<times> string option \<times> string option" where
  "logged (LogResult n s d e) = (n, s, d, error_field e)"

text \<open>
  What calling one probe adds to the log: what the probe itself logs and, when it raises
  an instance of \<^verbatim>\<open>Exception\<close>, the failure the loop logs under the probe's name.
\<close>

definition recorded :: "string \<times> behaviour \<Rightarrow> (string \<times> bool \<times> string option \<times> string option) list" where
  "recorded p =
     map logged (fst (snd p)) @
     (case snd (snd p) of
        Return \<Rightarrow> []
      | Raise e \<Rightarrow> if exc_isException e then [(fst p, False, None, error_field (PyErr e))] else [])"

text \<open>A probe that returns, or raises an error: an instance of \<^verbatim>\<open>Exception\<close>.\<close>

definition catchable :: "string \<times> behaviour \<Rightarrow> bool" where
  "catchable p = (case snd (snd p) of Return \<Rightarrow> True | Raise e \<Rightarrow> exc_isException e)"

text \<open>The calls of probes and the sleeps among the events, in order; and the file writes.\<close>

definition schedule :: "event list \<Rightarrow> event list" where
  "schedule tr = filter (\<lambda>e. case e of Invoke n \<Rightarrow> True | Sleep d \<Rightarrow> True | _ \<Rightarrow> False) tr"

definition writes :: "event list \<Rightarrow> event list" where
  "writes tr = filter (\<lambda>e. case e of Write p d \<Rightarrow> True | _ \<Rightarrow> False) tr"


subsection \<open>Example runs\<close>

text \<open>
  What the seven SMTP probes do against a server that behaves as they expect and answers
  \<^verbatim>\<open>EHLO\<close> with the one line \<^verbatim>\<open>mail.example.org\<close>: each logs one pass, under the name
  and with the details its method gives, and returns.
\<close>

definition healthy :: "string \<Rightarrow> behaviour" where
  "healthy name =
     (if name = ''test_smtp_banner''
      then ([LogResult ''SMTP Banner'' True (Some ''Response: mail.example.org'') PyNone], Return)
      else if name = ''test_ehlo_features''
      then ([LogResult ''EHLO Features'' True
               (Some (''Features: ['' @ [CHR 0x27] @ ''mail.example.org'' @ [CHR 0x27] @ '']'')) PyNone], Return)
      else if name = ''test_submission_auth_required''
      then ([LogResult ''Submission Auth Required'' True None PyNone], Return)
      else if name = ''test_mx_external_email''
      then ([LogResult ''MX External Email Acceptance'' True None PyNone], Return)
      else if name = ''test_relay_protection''
      then ([LogResult ''Relay Protection'' True None PyNone], Return)
      else if name = ''test_send_test_email''
      then ([LogResult ''Send Test Email'' True (Some ''Email sent to MailHog successfully'') PyNone], Return)
      else if name = ''test_connection_limits''
      then ([LogResult ''Connection Limits'' True (Some ''Created 5 concurrent connections'') PyNone], Return)
      else ([], Return))"

text \<open>
  An environment in which every connection is accepted, the seven SMTP probes pass, and
  the report can be written. Its clock stands still. The rate it formats is right for
  the runs below, where all, two of three, or none pass.
\<close>

definition env_up :: env where
  "env_up = \<lparr>clock = (\<lambda>k. ''2024-01-01T00:00:00''),
             create_connection = (\<lambda>i host port. None),
             smtp_probe = healthy,
             open_w = (\<lambda>path. None),
             format_rate = (\<lambda>p t. if p = t then ''100.0'' else if 3 * p = 2 * t then ''66.7'' else ''0.0'')\<rparr>"



text \<open>
  Three probes: the first and the last log a pass and return, the second raises a
  \<^verbatim>\<open>TimeoutError\<close> it does not handle.
\<close>

definition scenario :: "(string \<times> behaviour) list" where
  "scenario =
     [(''test_a'', ([LogResult ''A'' True None PyNone], Return)),
      (''test_b'', ([], Raise (PyExc ''TimeoutError'' ''timeout'' True True))),
      (''test_c'', ([LogResult ''C'' True None PyNone], Return))]"

text \<open>A probe that raises \<^verbatim>\<open>Exception()\<close>, whose string form is empty.\<close>

definition silent_failure :: "string \<times> behaviour" where
  "silent_failure = (''test_silent'', ([], Raise (PyExc ''Exception'' [] True True)))"


section \<open>Facts about the methods\<close>

subsection \<open>Events and the log, step by step\<close>

lemma outcome_record [simp]:
  "outcome \<lparr>test = n, success = s, timestamp = t, details = d, error = e\<rparr> = (n, s, d, e)"
  by (simp add: outcome_def)

lemma schedule_append [simp]: "schedule (xs @ ys) = schedule xs @ schedule ys"
  by (simp add: schedule_def)

lemma writes_append [simp]: "writes (xs @ ys) = writes xs @ writes ys"
  by (simp add: writes_def)

lemma schedule_simps [simp]:
  "schedule [] = []"
  "schedule (Invoke n # es) = Invoke n # schedule es"
  "schedule (Sleep d # es) = Sleep d # schedule es"
  "schedule (Print s # es) = schedule es"
  "schedule (Write p j # es) = schedule es"
  by (simp_all add: schedule_def)

lemma writes_simps [simp]:
  "writes [] = []"
  "writes (Invoke n # es) = writes es"
  "writes (Sleep d # es) = writes es"
  "writes (Print s # es) = writes es"
  "writes (Write p j # es) = Write p j # writes es"
  by (simp_all add: writes_def)

lemma fst_emit [simp]: "fst (emit e st) = fst st"
  by (simp add: emit_def)

lemma trace_emit [simp]: "trace (snd (emit e st)) = trace (snd st) @ [e]"
  by (simp add: emit_def)

lemma ticks_emit [simp]: "ticks (snd (emit e st)) = ticks (snd st)"
  by (simp add: emit_def)

lemma results_log_result [simp]:
  "results (fst (log_result ev n s d e st)) =
     results (fst st) @ [\<lparr>test = n, success = s, timestamp = clock ev (ticks (snd st)),
                           details = d, error = error_field e\<rparr>]"
  by (simp add: log_result_def Let_def)

lemma config_log_result [simp]:
  "smtp_host (fst (log_result ev n s d e st)) = smtp_host (fst st)"
  "mx_port (fst (log_result ev n s d e st)) = mx_port (fst st)"
  "submission_port (fst (log_result ev n s d e st)) = submission_port (fst st)"
  by (simp_all add: log_result_def Let_def)

lemma schedule_log_result [simp]:
  "schedule (trace (snd (log_result ev n s d e st))) = schedule (trace (snd st))"
  by (simp add: log_result_def Let_def split: option.split)

lemma writes_log_result [simp]:
  "writes (trace (snd (log_result ev n s d e st))) = writes (trace (snd st))"
  by (simp add: log_result_def Let_def split: option.split)

lemma results_do_calls:
  "map outcome (results (fst (do_calls ev cs st))) = map outcome (results (fst st)) @ map logged cs"
proof (induction cs arbitrary: st)
  case Nil
  show ?case by simp
next
  case (Cons c cs)
  show ?case by (cases c) (simp add: Cons.IH)
qed

lemma schedule_do_calls [simp]:
  "schedule (trace (snd (do_calls ev cs st))) = schedule (trace (snd st))"
  by (induction ev cs st rule: do_calls.induct) simp_all

lemma writes_do_calls [simp]:
  "writes (trace (snd (do_calls ev cs st))) = writes (trace (snd st))"
  by (induction ev cs st rule: do_calls.induct) simp_all

lemma fst_invoke [simp]: "fst (invoke ev p st) = snd (snd p)"
  by (simp add: invoke_def)

lemma results_invoke:
  "map outcome (results (fst (snd (invoke ev p st)))) = map outcome (results (fst st)) @ map logged (fst (snd p))"
  by (simp add: invoke_def results_do_calls)

lemma schedule_invoke [simp]:
  "schedule (trace (snd (snd (invoke ev p st)))) = schedule (trace (snd st)) @ [Invoke (fst p)]"
  by (simp add: invoke_def)

lemma writes_invoke [simp]:
  "writes (trace (snd (snd (invoke ev p st)))) = writes (trace (snd st))"
  by (simp add: invoke_def)

lemma run_loop_completes: "list_all catchable ps \<Longrightarrow> fst (run_loop ev ps st) = None"
  by (induction ps arbitrary: st) (auto simp: catchable_def split: ending.splits)



lemma results_run_loop:
  "fst (run_loop ev ps st) = None \<Longrightarrow>
   map outcome (results (fst (snd (run_loop ev ps st)))) =
     map outcome (results (fst st)) @ concat (map recorded ps)"
proof (induction ps arbitrary: st)
  case Nil
  show ?case by simp
next
  case (Cons p ps)
  show ?case
  proof (cases "snd (snd p)")
    case Return
    with Cons.prems have "fst (run_loop ev ps (emit (Sleep 1) (snd (invoke ev p st)))) = None"
      by simp
    from Cons.IH [OF this] Return show ?thesis
      by (simp add: results_invoke recorded_def)
  next
    case (Raise e)
    with Cons.prems have c: "exc_isException e"
      by (simp split: if_splits)
    with Cons.prems Raise have
      "fst (run_loop ev ps (emit (Sleep 1) (log_result ev (fst p) False None (PyErr e) (snd (invoke ev p st))))) = None"
      by simp
    from Cons.IH [OF this] Raise c show ?thesis
      by (simp add: results_invoke recorded_def)
  qed
qed

lemma schedule_run_loop:
  "fst (run_loop ev ps st) = None \<Longrightarrow>
   schedule (trace (snd (snd (run_loop ev ps st)))) =
     schedule (trace (snd st)) @ concat (map (\<lambda>p. [Invoke (fst p), Sleep 1]) ps)"
proof (induction ps arbitrary: st)
  case Nil
  show ?case by simp
next
  case (Cons p ps)
  show ?case
  proof (cases "snd (snd p)")
    case Return
    with Cons.prems have "fst (run_loop ev ps (emit (Sleep 1) (snd (invoke ev p st)))) = None"
      by simp
    from Cons.IH [OF this] Return show ?thesis
      by simp
  next
    case (Raise e)
    with Cons.prems have c: "exc_isException e"
      by (simp split: if_splits)
    with Cons.prems Raise have
      "fst (run_loop ev ps (emit (Sleep 1) (log_result ev (fst p) False None (PyErr e) (snd (invoke ev p st))))) = None"
      by simp
    from Cons.IH [OF this] Raise c show ?thesis
      by simp
  qed
qed

lemma writes_run_loop [simp]:
  "writes (trace (snd (snd (run_loop ev ps st)))) = writes (trace (snd st))"
  by (induction ps arbitrary: st) (simp_all split: ending.splits)

subsection \<open>The whole method\<close>

lemma schedule_announce [simp]: "schedule (trace (snd (announce st))) = schedule (trace (snd st))"
  by (simp add: announce_def)

lemma writes_announce [simp]: "writes (trace (snd (announce st))) = writes (trace (snd st))"
  by (simp add: announce_def)

lemma fst_announce [simp]: "fst (announce st) = fst st"
  by (simp add: announce_def)

lemma passed_length: "passed rs = int (length (filter success rs))"
  by (induction rs) (simp_all add: passed_def)

lemma passed_all_iff: "passed rs = int (length rs) \<longleftrightarrow> list_all success rs"
proof -
  have "length (filter success rs) = length rs \<longleftrightarrow> list_all success rs"
  proof (induction rs)
    case Nil
    show ?case by simp
  next
    case (Cons r rs)
    show ?case
    proof (cases "success r")
      case True
      with Cons show ?thesis by simp
    next
      case False
      have "length (filter success rs) < Suc (length rs)"
        by (simp add: le_imp_less_Suc)
      with False show ?thesis by simp
    qed
  qed
  then show ?thesis by (simp add: passed_length)
qed

lemma results_runner [simp]:
  "results (fst (snd (runner ev ts st))) = results (fst (snd (run_loop ev ts (announce st))))"
  by (simp add: runner_def Let_def split: option.split)

lemma schedule_runner [simp]:
  "schedule (trace (snd (snd (runner ev ts st)))) = schedule (trace (snd (snd (run_loop ev ts (announce st)))))"
  by (simp add: runner_def Let_def split: option.split)

lemma runner_returns_iff:
  "fst (runner ev ts st) = Inr b \<longleftrightarrow>
     fst (run_loop ev ts (announce st)) = None
     \<and> results (fst (snd (run_loop ev ts (announce st)))) \<noteq> []
     \<and> open_w ev report_path = None
     \<and> b = list_all success (results (fst (snd (run_loop ev ts (announce st)))))"
  by (auto simp add: runner_def Let_def total_count_def passed_all_iff split: option.split)



lemma trace_runner_returns:
  "fst (runner ev ts st) = Inr b \<Longrightarrow>
   \<exists>mid. trace (snd (snd (runner ev ts st))) =
     (trace (snd (snd (run_loop ev ts (announce st)))) @ mid)
       @ [Write report_path (json_dump (results (fst (snd (runner ev ts st)))))]
       @ [Print (CHR 0x0A # page @ '' Detailed results saved to: /tmp/smtp-test-results.json'')]
     \<and> schedule mid = [] \<and> writes mid = []"
  by (simp add: runner_def Let_def split: option.split_asm if_split_asm)

lemma port_loop_returns:
  "snd (port_loop ev host i ps) = Return \<Longrightarrow> length (fst (port_loop ev host i ps)) = length ps"
  by (induction ps arbitrary: i) (auto split: option.splits if_splits)

lemma port_probe_returns:
  "snd (test_port_connectivity ev self) = Return \<Longrightarrow> length (fst (test_port_connectivity ev self)) = 2"
  using port_loop_returns [of ev "smtp_host self" 0 "[(''MX'', mx_port self), (''Submission'', submission_port self)]"]
  by (simp add: test_port_connectivity_def del: port_loop.simps)

lemma length_results_outcome:
  "map outcome (results a) = map outcome (results b) @ xs \<Longrightarrow> length (results a) = length (results b) + length xs"
proof -
  assume "map outcome (results a) = map outcome (results b) @ xs"
  then have "length (map outcome (results a)) = length (map outcome (results b) @ xs)"
    by simp
  then show ?thesis by simp
qed

lemma summary_lines:
  "fst (run_loop ev ts (announce st)) = None \<Longrightarrow>
   Print (check @ '' Passed: '' @ str_int (passed (results (fst (snd (runner ev ts st)))))
            @ ''/'' @ str_int (total_count (results (fst (snd (runner ev ts st))))))
     \<in> set (trace (snd (snd (runner ev ts st))))
   \<and> Print (cross @ '' Failed: '' @ str_int (failed (results (fst (snd (runner ev ts st)))))
            @ ''/'' @ str_int (total_count (results (fst (snd (runner ev ts st))))))
     \<in> set (trace (snd (snd (runner ev ts st))))"
  by (simp add: runner_def Let_def failed_def split: option.split)

subsection \<open>The script and the shipped probe list\<close>


lemma results_script [simp]:
  "results (fst (snd (script ev))) = results (fst (snd (run_all_tests ev (SMTPTester_default, world0))))"
  by (simp add: script_def split: sum.split)


subsection \<open>Two runs side by side\<close>

lemma outcomes_run_loop_agree:
  "map outcome (results (fst st1)) = map outcome (results (fst st2)) \<Longrightarrow>
   fst (run_loop ev1 ts st1) = fst (run_loop ev2 ts st2)
   \<and> map outcome (results (fst (snd (run_loop ev1 ts st1)))) =
       map outcome (results (fst (snd (run_loop ev2 ts st2))))"
proof (induction ts arbitrary: st1 st2)
  case Nil
  then show ?case by simp
next
  case (Cons p ts)
  have inv: "map outcome (results (fst (snd (invoke ev1 p st1)))) =
             map outcome (results (fst (snd (invoke ev2 p st2))))"
    using Cons.prems by (simp add: results_invoke)
  show ?case
  proof (cases "snd (snd p)")
    case Return
    have "map outcome (results (fst (emit (Sleep 1) (snd (invoke ev1 p st1))))) =
          map outcome (results (fst (emit (Sleep 1) (snd (invoke ev2 p st2)))))"
      using inv by simp
    from Cons.IH [OF this] Return show ?thesis by simp
  next
    case (Raise e)
    show ?thesis
    proof (cases "exc_isException e")
      case True
      have "map outcome (results (fst (emit (Sleep 1)
               (log_result ev1 (fst p) False None (PyErr e) (snd (invoke ev1 p st1)))))) =
            map outcome (results (fst (emit (Sleep 1)
               (log_result ev2 (fst p) False None (PyErr e) (snd (invoke ev2 p st2))))))"
        using inv by simp
      from Cons.IH [OF this] Raise True show ?thesis by simp
    next
      case False
      with Raise inv show ?thesis by simp
    qed
  qed
qed

lemma success_of_outcomes: "map success rs = map (\<lambda>x. fst (snd x)) (map outcome rs)"
  by (simp add: outcome_def)

lemma port_loop_env:
  "create_connection ev1 = create_connection ev2 \<Longrightarrow> port_loop ev1 host i ps = port_loop ev2 host i ps"
  by (induction ps arbitrary: i) (auto split: option.splits)

lemma tests_env [simp]: "tests (ev\<lparr>clock := c, open_w := sink\<rparr>) self = tests ev self"
  using port_loop_env [of "ev\<lparr>clock := c, open_w := sink\<rparr>" ev]
  by (simp add: tests_def test_port_connectivity_def del: port_loop.simps)

section \<open>The claims\<close>

text \<open>
  C1, as the claim has it: when a probe raises an error it does not handle,
  \<^verbatim>\<open>run_all_tests\<close> catches it, records a failed result carrying the probe's name and
  a non-empty description of the error, and goes on with every remaining probe in order.
  The description may be empty: a probe that raises \<^verbatim>\<open>Exception()\<close> is recorded with the
  empty string as its error.
\<close>

theorem probe_error_description_may_be_empty:
  "map outcome (results (fst (snd (runner env_up [silent_failure] (SMTPTester_default, world0)))))
     = [(''test_silent'', False, None, Some [])]"
  by (simp add: silent_failure_def SMTPTester_default_def SMTPTester_def world0_def
        invoke_def error_field_def)

text \<open>
  C1, amended. For every probe list in which each probe returns or raises an error (an
  instance of \<^verbatim>\<open>Exception\<close>): the loop of \<^verbatim>\<open>run_all_tests\<close> runs to its end; every probe is
  called, in order, and slept after; and the log grows by the records of the probes in
  order, where a probe that raises \<open>e\<close> leaves, after what it logged itself, one failed
  result under the probe's name with no details and the string form of \<open>e\<close> as error
  (\<^verbatim>\<open>None\<close> when \<open>e\<close> is falsy). That string may be empty.
\<close>

theorem raised_errors_are_recorded:
  assumes "list_all catchable ts"
  shows "fst (run_loop ev ts (announce st)) = None
       \<and> schedule (trace (snd (snd (runner ev ts st)))) =
           schedule (trace (snd st)) @ concat (map (\<lambda>p. [Invoke (fst p), Sleep 1]) ts)
       \<and> map outcome (results (fst (snd (runner ev ts st)))) =
           map outcome (results (fst st)) @ concat (map recorded ts)
       \<and> recorded (name, cs, Raise (PyExc cls msg True tr)) =
           map logged cs @ [(name, False, None, if tr then Some msg else None)]"
proof -
  from assms have fin: "fst (run_loop ev ts (announce st)) = None"
    by (rule run_loop_completes)
  from schedule_run_loop [OF fin] results_run_loop [OF fin] fin show ?thesis
    by (simp add: recorded_def error_field_def)
qed

theorem raised_errors_are_recorded_witness:
  "list_all catchable scenario
   \<and> fst (run_loop env_up scenario (announce (SMTPTester_default, world0))) = None
   \<and> schedule (trace (snd (snd (runner env_up scenario (SMTPTester_default, world0))))) =
       [Invoke ''test_a'', Sleep 1, Invoke ''test_b'', Sleep 1, Invoke ''test_c'', Sleep 1]
   \<and> map outcome (results (fst (snd (runner env_up scenario (SMTPTester_default, world0))))) =
       [(''A'', True, None, None), (''test_b'', False, None, Some ''timeout''), (''C'', True, None, None)]"
proof -
  have c: "list_all catchable scenario"
    by (simp add: scenario_def catchable_def)
  from raised_errors_are_recorded [OF c, of env_up "(SMTPTester_default, world0)"] c
  show ?thesis
    by (simp add: scenario_def recorded_def error_field_def SMTPTester_default_def SMTPTester_def world0_def)
qed

text \<open>
  C2, as the claim has it: every call of a probe appends exactly one result, so a run
  over \<open>N\<close> probes ends with \<open>N\<close> results. One call of \<^verbatim>\<open>test_port_connectivity\<close> appends
  two results, one for each port; the eight probes of the script leave nine results
  when each of the other seven logs one.
\<close>

theorem one_probe_two_results:
  "length [(''test_port_connectivity'', test_port_connectivity env_up SMTPTester_default)] = 1
   \<and> map outcome (results (fst (snd (runner env_up
         [(''test_port_connectivity'', test_port_connectivity env_up SMTPTester_default)]
         (SMTPTester_default, world0))))) =
       [(''MX Port 25 Connectivity'', True, None, None),
        (''Submission Port 587 Connectivity'', True, None, None)]
   \<and> length (tests env_up SMTPTester_default) = 8
   \<and> length (results (fst (snd (run_all_tests env_up (SMTPTester_default, world0))))) = 9"
  by (simp add: run_all_tests_def tests_def test_port_connectivity_def env_up_def healthy_def
        SMTPTester_default_def SMTPTester_def world0_def invoke_def error_field_def
        connectivity_def str_int_def digits.simps)

text \<open>
  C2, amended. A call of a probe appends one result for each \<^verbatim>\<open>log_result\<close> call the
  probe makes, and one more, logged by the loop, when the probe raises an error. When
  \<^verbatim>\<open>run_all_tests\<close> returns, the log is the log it started from followed by these records,
  probe after probe in the order of the calls; its length is the sum of what each probe
  left, which need not be the number of probes. \<^verbatim>\<open>test_port_connectivity\<close>, when it
  returns, has left exactly two.
\<close>

theorem log_concatenates_probe_records:
  assumes "fst (runner ev ts st) = Inr b"
  shows "map outcome (results (fst (snd (runner ev ts st)))) =
           map outcome (results (fst st)) @ concat (map recorded ts)
       \<and> length (results (fst (snd (runner ev ts st)))) =
           length (results (fst st)) + sum_list (map (\<lambda>p. length (recorded p)) ts)
       \<and> (snd (test_port_connectivity ev self) = Return \<longrightarrow>
            length (recorded (name, test_port_connectivity ev self)) = 2)"
proof -
  from assms have fin: "fst (run_loop ev ts (announce st)) = None"
    by (simp add: runner_returns_iff)
  have log: "map outcome (results (fst (snd (runner ev ts st)))) =
               map outcome (results (fst st)) @ concat (map recorded ts)"
    using results_run_loop [OF fin] by simp
  have "length (results (fst (snd (runner ev ts st)))) =
          length (results (fst st)) + length (concat (map recorded ts))"
    using log by (rule length_results_outcome)
  then have len: "length (results (fst (snd (runner ev ts st)))) =
          length (results (fst st)) + sum_list (map (\<lambda>p. length (recorded p)) ts)"
    by (simp add: length_concat comp_def)
  have "snd (test_port_connectivity ev self) = Return \<longrightarrow>
          length (recorded (name, test_port_connectivity ev self)) = 2"
    by (simp add: recorded_def port_probe_returns)
  with log len show ?thesis by simp
qed

theorem log_concatenates_probe_records_witness:
  "fst (runner env_up [(''test_port_connectivity'', test_port_connectivity env_up SMTPTester_default)]
          (SMTPTester_default, world0)) = Inr True
   \<and> snd (test_port_connectivity env_up SMTPTester_default) = Return
   \<and> length (results (fst (snd (runner env_up
         [(''test_port_connectivity'', test_port_connectivity env_up SMTPTester_default)]
         (SMTPTester_default, world0))))) = 2
   \<and> length (recorded (''test_port_connectivity'', test_port_connectivity env_up SMTPTester_default)) = 2"
proof -
  have r: "fst (runner env_up [(''test_port_connectivity'', test_port_connectivity env_up SMTPTester_default)]
          (SMTPTester_default, world0)) = Inr True"
    by (simp add: runner_returns_iff test_port_connectivity_def env_up_def healthy_def report_path_def
          SMTPTester_default_def SMTPTester_def world0_def invoke_def error_field_def)
  have e: "snd (test_port_connectivity env_up SMTPTester_default) = Return"
    by (simp add: test_port_connectivity_def env_up_def healthy_def)
  from log_concatenates_probe_records [OF r, of SMTPTester_default "''test_port_connectivity''"] r e
  show ?thesis
    by (simp add: SMTPTester_default_def SMTPTester_def)
qed







text \<open>
  C5. In every finalized report the counts add up: \<open>passed + failed = total\<close>, where
  \<open>passed\<close> is the number of results whose \<open>success\<close> is true, \<open>failed\<close> (printed as
  \<^verbatim>\<open>total - passed\<close>) the number of results whose \<open>success\<close> is false, and \<open>total\<close> the
  length of the log. These are the counts the summary prints, over the log of the run,
  whenever the loop over the probes has run to its end.
\<close>

theorem counts_add_up:
  "passed rs + failed rs = total_count rs
   \<and> passed rs = int (length (filter success rs))
   \<and> failed rs = int (length (filter (\<lambda>r. \<not> success r) rs))
   \<and> total_count rs = int (length rs)
   \<and> (fst (run_loop ev ts (announce st)) = None \<longrightarrow>
        Print (check @ '' Passed: '' @ str_int (passed (results (fst (snd (runner ev ts st)))))
                 @ ''/'' @ str_int (total_count (results (fst (snd (runner ev ts st))))))
          \<in> set (trace (snd (snd (runner ev ts st))))
        \<and> Print (cross @ '' Failed: '' @ str_int (failed (results (fst (snd (runner ev ts st)))))
                 @ ''/'' @ str_int (total_count (results (fst (snd (runner ev ts st))))))
          \<in> set (trace (snd (snd (runner ev ts st)))))"
proof -
  have "length (filter success rs) + length (filter (\<lambda>r. \<not> success r) rs) = length rs"
    by (rule sum_length_filter_compl)
  then have "int (length rs) - int (length (filter success rs)) = int (length (filter (\<lambda>r. \<not> success r) rs))"
    by linarith
  then have "passed rs + failed rs = total_count rs
   \<and> passed rs = int (length (filter success rs))
   \<and> failed rs = int (length (filter (\<lambda>r. \<not> success r) rs))
   \<and> total_count rs = int (length rs)"
    by (simp add: failed_def total_count_def passed_length)
  with summary_lines [of ev ts st] show ?thesis
    by blast
qed

theorem counts_add_up_witness:
  "fst (run_loop env_up scenario (announce (SMTPTester_default, world0))) = None
   \<and> Print (check @ '' Passed: 2/3'') \<in> set (trace (snd (snd (runner env_up scenario (SMTPTester_default, world0)))))
   \<and> Print (cross @ '' Failed: 1/3'') \<in> set (trace (snd (snd (runner env_up scenario (SMTPTester_default, world0)))))"
proof -
  have fin: "fst (run_loop env_up scenario (announce (SMTPTester_default, world0))) = None"
    by (simp add: scenario_def invoke_def)
  have p: "passed (results (fst (snd (runner env_up scenario (SMTPTester_default, world0))))) = 2"
    by (simp add: passed_def scenario_def invoke_def SMTPTester_default_def SMTPTester_def)
  have t: "total_count (results (fst (snd (runner env_up scenario (SMTPTester_default, world0))))) = 3"
    by (simp add: total_count_def scenario_def invoke_def SMTPTester_default_def SMTPTester_def)
  have f: "failed (results (fst (snd (runner env_up scenario (SMTPTester_default, world0))))) = 1"
    using p t by (simp add: failed_def)
  from counts_add_up [of _ env_up scenario "(SMTPTester_default, world0)"] fin
  show ?thesis
    unfolding p t f by (simp add: str_int_def digits.simps)
qed






text \<open>
  C8, as the claim has it: the options of the program are the host, the two ports, the
  delay between probes and the path of the report. The constructor takes the first
  three only; with each of them changed from its default the run still sleeps 1 after
  every probe and still writes to \<^verbatim>\<open>/tmp/smtp-test-results.json\<close>.
\<close>

theorem delay_and_path_are_constants:
  "schedule (trace (snd (snd (run_all_tests env_up (SMTPTester ''mail.example.org'' 2525 1587, world0))))) =
     [Invoke ''test_port_connectivity'', Sleep 1, Invoke ''test_smtp_banner'', Sleep 1,
      Invoke ''test_ehlo_features'', Sleep 1, Invoke ''test_submission_auth_required'', Sleep 1,
      Invoke ''test_mx_external_email'', Sleep 1, Invoke ''test_relay_protection'', Sleep 1,
      Invoke ''test_send_test_email'', Sleep 1, Invoke ''test_connection_limits'', Sleep 1]
   \<and> map (\<lambda>e. case e of Write path doc \<Rightarrow> path | _ \<Rightarrow> [])
        (writes (trace (snd (snd (run_all_tests env_up (SMTPTester ''mail.example.org'' 2525 1587, world0))))))
       = [''/tmp/smtp-test-results.json'']"
  by (simp add: run_all_tests_def runner_def Let_def total_count_def passed_def report_path_def
        tests_def test_port_connectivity_def env_up_def healthy_def
        SMTPTester_def world0_def invoke_def error_field_def)

text \<open>
  C8, amended. The options are the host and the two ports, with the defaults
  \<^verbatim>\<open>'app'\<close>, 25 and 587: the constructor stores them, and \<^verbatim>\<open>test_port_connectivity\<close> connects
  to the host on the one port and then on the other. The delay and the path of the report
  are constants of \<^verbatim>\<open>run_all_tests\<close>: whatever the tester and the environment, every probe,
  when none leaves the loop, is followed by a sleep of 1, and a run that returns has
  written to \<^verbatim>\<open>/tmp/smtp-test-results.json\<close>.
\<close>

theorem options_and_fixed_delay:
  "SMTPTester_default = \<lparr>smtp_host = ''app'', mx_port = 25, submission_port = 587, results = []\<rparr>
   \<and> SMTPTester host mx sub = \<lparr>smtp_host = host, mx_port = mx, submission_port = sub, results = []\<rparr>
   \<and> (create_connection ev 0 (smtp_host self) (mx_port self) = None
        \<and> create_connection ev 1 (smtp_host self) (submission_port self) = None \<longrightarrow>
        test_port_connectivity ev self =
          ([LogResult (connectivity ''MX'' (mx_port self)) True None PyNone,
            LogResult (connectivity ''Submission'' (submission_port self)) True None PyNone], Return))
   \<and> (list_all catchable ts \<longrightarrow>
        schedule (trace (snd (snd (runner ev ts (self, w))))) =
          schedule (trace w) @ concat (map (\<lambda>p. [Invoke (fst p), Sleep 1]) ts))
   \<and> (fst (runner ev ts (self, w)) = Inr b \<longrightarrow>
        writes (trace (snd (snd (runner ev ts (self, w))))) =
          writes (trace w) @
            [Write ''/tmp/smtp-test-results.json'' (json_dump (results (fst (snd (runner ev ts (self, w))))))])"
proof -
  have opts: "SMTPTester_default = \<lparr>smtp_host = ''app'', mx_port = 25, submission_port = 587, results = []\<rparr>
     \<and> SMTPTester host mx sub = \<lparr>smtp_host = host, mx_port = mx, submission_port = sub, results = []\<rparr>
     \<and> (create_connection ev 0 (smtp_host self) (mx_port self) = None
        \<and> create_connection ev 1 (smtp_host self) (submission_port self) = None \<longrightarrow>
        test_port_connectivity ev self =
          ([LogResult (connectivity ''MX'' (mx_port self)) True None PyNone,
            LogResult (connectivity ''Submission'' (submission_port self)) True None PyNone], Return))"
    by (simp add: SMTPTester_default_def SMTPTester_def test_port_connectivity_def)
  have sched: "list_all catchable ts \<longrightarrow>
        schedule (trace (snd (snd (runner ev ts (self, w))))) =
          schedule (trace w) @ concat (map (\<lambda>p. [Invoke (fst p), Sleep 1]) ts)"
  proof
    assume "list_all catchable ts"
    then have fin: "fst (run_loop ev ts (announce (self, w))) = None"
      by (rule run_loop_completes)
    from schedule_run_loop [OF fin] show
      "schedule (trace (snd (snd (runner ev ts (self, w))))) =
          schedule (trace w) @ concat (map (\<lambda>p. [Invoke (fst p), Sleep 1]) ts)"
      by simp
  qed
  have wr: "fst (runner ev ts (self, w)) = Inr b \<longrightarrow>
        writes (trace (snd (snd (runner ev ts (self, w))))) =
          writes (trace w) @
            [Write ''/tmp/smtp-test-results.json'' (json_dump (results (fst (snd (runner ev ts (self, w))))))]"
  proof
    assume r: "fst (runner ev ts (self, w)) = Inr b"
    from trace_runner_returns [OF r] obtain mid where
      tr: "trace (snd (snd (runner ev ts (self, w)))) =
             (trace (snd (snd (run_loop ev ts (announce (self, w))))) @ mid)
             @ [Write report_path (json_dump (results (fst (snd (runner ev ts (self, w))))))]
             @ [Print (CHR 0x0A # page @ '' Detailed results saved to: /tmp/smtp-test-results.json'')]"
      and mid: "writes mid = []"
      by blast
    show "writes (trace (snd (snd (runner ev ts (self, w))))) =
          writes (trace w) @
            [Write ''/tmp/smtp-test-results.json'' (json_dump (results (fst (snd (runner ev ts (self, w))))))]"
      unfolding tr using mid by (simp add: report_path_def)
  qed
  from opts sched wr show ?thesis by blast
qed

theorem options_and_fixed_delay_witness:
  "list_all catchable scenario
   \<and> create_connection env_up 0 (smtp_host (SMTPTester ''mail.example.org'' 2525 1587)) 2525 = None
   \<and> create_connection env_up 1 (smtp_host (SMTPTester ''mail.example.org'' 2525 1587)) 1587 = None
   \<and> test_port_connectivity env_up (SMTPTester ''mail.example.org'' 2525 1587) =
        ([LogResult ''MX Port 2525 Connectivity'' True None PyNone,
          LogResult ''Submission Port 1587 Connectivity'' True None PyNone], Return)
   \<and> fst (runner env_up scenario (SMTPTester ''mail.example.org'' 2525 1587, world0)) = Inr False
   \<and> schedule (trace (snd (snd (runner env_up scenario (SMTPTester ''mail.example.org'' 2525 1587, world0))))) =
       [Invoke ''test_a'', Sleep 1, Invoke ''test_b'', Sleep 1, Invoke ''test_c'', Sleep 1]
   \<and> writes (trace (snd (snd (runner env_up scenario (SMTPTester ''mail.example.org'' 2525 1587, world0))))) =
       [Write ''/tmp/smtp-test-results.json''
         (json_dump (results (fst (snd (runner env_up scenario (SMTPTester ''mail.example.org'' 2525 1587, world0))))))]"
proof -
  have c: "list_all catchable scenario"
    by (simp add: scenario_def catchable_def)
  have r: "fst (runner env_up scenario (SMTPTester ''mail.example.org'' 2525 1587, world0)) = Inr False"
    by (simp add: runner_returns_iff scenario_def env_up_def healthy_def report_path_def
          SMTPTester_def world0_def invoke_def error_field_def)
  from options_and_fixed_delay [of "''app''" 25 587 env_up "SMTPTester ''mail.example.org'' 2525 1587" scenario world0 False] c r
  show ?thesis
    by (simp add: world0_def scenario_def env_up_def healthy_def SMTPTester_def connectivity_def str_int_def digits.simps)
qed

text \<open>
  C9. Two runs over the same probes, each probe doing in the second run what it did in
  the first, leave logs of the same length with the same \<open>success\<close> at every position,
  whatever the clocks say, whether or not the report can be written, and whatever the
  options of the two fresh testers. For the eight probes of the script: two runs of one
  tester configuration in environments that differ only in the clock and in the file
  system leave the same \<open>success\<close> values.
\<close>

theorem success_values_reproducible:
  "length (results (fst (snd (runner ev1 ts (SMTPTester host1 mx1 sub1, w1))))) =
     length (results (fst (snd (runner ev2 ts (SMTPTester host2 mx2 sub2, w2)))))
   \<and> map success (results (fst (snd (runner ev1 ts (SMTPTester host1 mx1 sub1, w1))))) =
     map success (results (fst (snd (runner ev2 ts (SMTPTester host2 mx2 sub2, w2)))))
   \<and> map success (results (fst (snd (run_all_tests (ev\<lparr>clock := c, open_w := sink\<rparr>) (SMTPTester host mx sub, w1))))) =
     map success (results (fst (snd (run_all_tests ev (SMTPTester host mx sub, w2)))))"
proof -
  have start: "map outcome (results (fst (announce (SMTPTester host1 mx1 sub1, w1)))) =
               map outcome (results (fst (announce (SMTPTester host2 mx2 sub2, w2))))"
    by (simp add: SMTPTester_def)
  have o: "map outcome (results (fst (snd (runner ev1 ts (SMTPTester host1 mx1 sub1, w1))))) =
           map outcome (results (fst (snd (runner ev2 ts (SMTPTester host2 mx2 sub2, w2)))))"
    using outcomes_run_loop_agree [OF start, of ev1 ts ev2] by simp
  then have len: "length (results (fst (snd (runner ev1 ts (SMTPTester host1 mx1 sub1, w1))))) =
     length (results (fst (snd (runner ev2 ts (SMTPTester host2 mx2 sub2, w2)))))"
    by (rule map_eq_imp_length_eq)
  from o have suc: "map success (results (fst (snd (runner ev1 ts (SMTPTester host1 mx1 sub1, w1))))) =
     map success (results (fst (snd (runner ev2 ts (SMTPTester host2 mx2 sub2, w2)))))"
    by (simp only: success_of_outcomes)
  have start': "map outcome (results (fst (announce (SMTPTester host mx sub, w1)))) =
               map outcome (results (fst (announce (SMTPTester host mx sub, w2))))"
    by simp
  have "map outcome (results (fst (snd (run_all_tests (ev\<lparr>clock := c, open_w := sink\<rparr>) (SMTPTester host mx sub, w1))))) =
        map outcome (results (fst (snd (run_all_tests ev (SMTPTester host mx sub, w2)))))"
    using outcomes_run_loop_agree [OF start', of "ev\<lparr>clock := c, open_w := sink\<rparr>" "tests ev (SMTPTester host mx sub)" ev]
    by (simp add: run_all_tests_def)
  then have "map success (results (fst (snd (run_all_tests (ev\<lparr>clock := c, open_w := sink\<rparr>) (SMTPTester host mx sub, w1))))) =
     map success (results (fst (snd (run_all_tests ev (SMTPTester host mx sub, w2)))))"
    by (simp only: success_of_outcomes)
  with len suc show ?thesis by simp
qed

text \<open>
  C10. In every recorded result the field \<open>error\<close> is the string form of the \<open>error\<close>
  argument when that argument is truthy, and \<^verbatim>\<open>None\<close> otherwise. So it is always
  \<^verbatim>\<open>None\<close> or a string; an exception whose string form is empty is recorded as the empty
  string; and a falsy value such as the empty string (or \<^verbatim>\<open>None\<close>) is recorded as \<^verbatim>\<open>None\<close>.
\<close>

theorem error_field_of_log_result:
  "results (fst (log_result ev n s d e st)) =
     results (fst st) @
       [\<lparr>test = n, success = s, timestamp = clock ev (ticks (snd st)), details = d,
         error = (if truthy e then Some (str e) else None)\<rparr>]
   \<and> error (last (results (fst (log_result ev n s d (PyErr (PyExc cls [] isexc True)) st)))) = Some []
   \<and> error (last (results (fst (log_result ev n s d (PyStr []) st)))) = None
   \<and> error (last (results (fst (log_result ev n s d PyNone st)))) = None"
  by (simp add: error_field_def)

end
